theory Spec2Isabelle
  imports Main "HOL-Library.Word"
begin

unbundle bit_operations_syntax

section \<open>The BLE MIDI sketch \<open>ble_xg27_midi.ino\<close>\<close>

text \<open>
  The sketch is a set of global variables, two MIDI callbacks, the Arduino \<open>loop\<close>, the
  Bluetooth event handler \<open>sl_bt_on_event\<close> and four static helpers. The globals (and the
  \<open>static\<close> locals, which live as long as globals) are the fields of the record \<open>sketch\<close>;
  every function takes the record and returns it updated. The Bluetooth stack is not part
  of the sketch: each call into it is appended to the field \<open>calls\<close>, and what the stack
  answers is a parameter of the model. Output on the serial console is left out; no
  function of the sketch reads it back. So are \<open>setup\<close>, which only registers the two
  callbacks and configures pins, and the button code (\<open>btn_state\<close>,
  \<open>btn_state_change_callback\<close>, \<open>send_button_state_notification\<close>), which nothing calls.
\<close>

subsection \<open>Data\<close>

type_synonym u8 = "8 word"
type_synonym u16 = "16 word"
type_synonym u32 = "32 word"

text \<open>
  \<open>sl_status_t\<close>: the status every call into the Bluetooth stack returns. The sketch only
  ever passes it to \<open>app_assert_status\<close>, so all that matters is whether it is the success
  status; the numeric code of a failure is kept as it comes.
\<close>

datatype sl_status_t = SL_STATUS_OK | SL_STATUS_FAIL u32

text \<open>The packed struct \<open>midi_event_packet_t\<close> (lines 50-58).\<close>

record midi_event_packet_t =
  header :: u8
  timestamp :: u8
  status :: u8
  "note" :: u8
  velocity :: u8

text \<open>
  The union \<open>midi_data_t\<close> (lines 60-63) overlays the packed struct with \<open>payload[5]\<close>; the
  struct is packed and all its fields are single bytes, so the five bytes are the fields in
  declaration order.
\<close>

definition payload :: "midi_event_packet_t \<Rightarrow> u8 list" where
  "payload p = [header p, timestamp p, status p, note p, velocity p]"

text \<open>Enumerations and flags of the Bluetooth API that the sketch passes, kept symbolic.\<close>

datatype gattdb_service_type = sl_bt_gattdb_primary_service

datatype gattdb_service_property = SL_BT_GATTDB_ADVERTISED_SERVICE

datatype gattdb_characteristic_property =
    SL_BT_GATTDB_CHARACTERISTIC_READ
  | SL_BT_GATTDB_CHARACTERISTIC_WRITE
  | SL_BT_GATTDB_CHARACTERISTIC_NOTIFY

datatype gattdb_value_type = sl_bt_gattdb_fixed_length_value

datatype advertiser_discovery_mode = sl_bt_advertiser_general_discoverable

datatype advertiser_connection_mode = sl_bt_advertiser_connectable_scannable

text \<open>
  One constructor for each function of the Bluetooth stack that the sketch calls, with the
  arguments passed by value, in the order of the C prototype. Output parameters
  (\<open>&handle\<close>) are not arguments here: the stack's answer carries them.
\<close>

datatype call =
    Gattdb_new_session
  | Gattdb_add_service u16 gattdb_service_type gattdb_service_property nat "u8 list"
  | Gattdb_add_uuid16_characteristic u16 u16 "gattdb_characteristic_property list" u8 u8
      "u8 list" gattdb_value_type nat nat "u8 list"
  | Gattdb_add_uuid128_characteristic u16 u16 "gattdb_characteristic_property list" u8 u8
      "u8 list" gattdb_value_type nat nat "u8 list"
  | Gattdb_start_service u16 u16
  | Gattdb_commit u16
  | Advertiser_create_set
  | Advertiser_set_timing u8 u32 u32 u16 u8
  | Legacy_advertiser_generate_data u8 advertiser_discovery_mode
  | Legacy_advertiser_start u8 advertiser_connection_mode
  | Gatt_server_send_notification u8 u16 nat "u8 list"

text \<open>
  The stack answers a call with a status and, for a call with an output parameter, the
  value it stored there (\<open>None\<close>: it stored nothing and the variable keeps its value). The
  answer may depend on everything the sketch has called so far.
\<close>

type_synonym answer = "sl_status_t \<times> u16 option"
type_synonym stack = "call list \<Rightarrow> call \<Rightarrow> answer"

record sketch =
  conn_handle :: u8
  note_to_send :: u8
  note_velocity :: u8
  note_on_event :: bool
  note_off_event :: bool
  note_on :: midi_event_packet_t
  note_off :: midi_event_packet_t
  advertising_set_handle :: u8
  init :: bool
  gattdb_session_id :: u16
  generic_access_service_handle :: u16
  name_characteristic_handle :: u16
  midi_service_handle :: u16
  midi_report_characteristic_handle :: u16
  calls :: "call list"

text \<open>
  The state at program start: the initialisers of lines 41, 47, 48, 271 and 272; every
  other variable has static storage without an initialiser, which C sets to zero.
\<close>

definition zero_packet :: midi_event_packet_t where
  "zero_packet = \<lparr>header = 0, timestamp = 0, status = 0, note = 0, velocity = 0\<rparr>"

definition startup :: sketch where
  "startup = \<lparr>conn_handle = 0xFF, note_to_send = 0, note_velocity = 0,
     note_on_event = False, note_off_event = False,
     note_on = zero_packet, note_off = zero_packet,
     advertising_set_handle = 0xFF, init = True,
     gattdb_session_id = 0, generic_access_service_handle = 0,
     name_characteristic_handle = 0, midi_service_handle = 0,
     midi_report_characteristic_handle = 0, calls = []\<rparr>"

subsection \<open>Calling the stack\<close>

definition invoke :: "stack \<Rightarrow> call \<Rightarrow> sketch \<Rightarrow> answer \<times> sketch" where
  "invoke stk c s = (stk (calls s) c, s\<lparr>calls := calls s @ [c]\<rparr>)"

subsection \<open>The MIDI callbacks (lines 65-81)\<close>

definition handleNoteOn :: "u8 \<Rightarrow> u8 \<Rightarrow> u8 \<Rightarrow> sketch \<Rightarrow> sketch" where
  "handleNoteOn channel pitch vel s =
     s\<lparr>note_to_send := pitch, note_velocity := vel, note_on_event := True\<rparr>"

definition handleNoteOff :: "u8 \<Rightarrow> u8 \<Rightarrow> u8 \<Rightarrow> sketch \<Rightarrow> sketch" where
  "handleNoteOff channel pitch vel s =
     s\<lparr>note_to_send := pitch, note_velocity := vel, note_off_event := True\<rparr>"

subsection \<open>Building and sending a packet (lines 211-263)\<close>

text \<open>
  \<open>now\<close> is the value of \<open>sl_sleeptimer_tick_to_ms(sl_sleeptimer_get_tick_count())\<close>, a
  \<open>uint32_t\<close> read from the board's timer. The arithmetic is done in 32 bits and each
  assignment to a \<open>uint8_t\<close> field truncates (\<open>ucast\<close>). The status of the send is stored in
  \<open>sc\<close> and never read.
\<close>

definition midi_note_on :: "stack \<Rightarrow> u32 \<Rightarrow> u8 \<Rightarrow> u8 \<Rightarrow> sketch \<Rightarrow> sketch" where
  "midi_note_on stk now n v s =
     (let temp = now;
          temp = temp AND 0x00001fff;
          pkt = \<lparr>header = ucast (0x80 OR drop_bit 7 temp),
                 timestamp = ucast (0x80 OR (temp AND 0x003f)),
                 status = 0x90,
                 note = n,
                 velocity = v\<rparr>;
          s1 = s\<lparr>note_on := pkt\<rparr>;
          (sc, s2) = invoke stk (Gatt_server_send_notification (conn_handle s1)
                       (midi_report_characteristic_handle s1) 5 (payload (note_on s1))) s1
      in s2)"

definition midi_note_off :: "stack \<Rightarrow> u32 \<Rightarrow> u8 \<Rightarrow> u8 \<Rightarrow> sketch \<Rightarrow> sketch" where
  "midi_note_off stk now n v s =
     (let temp = now;
          temp = temp AND 0x00001fff;
          pkt = \<lparr>header = ucast (0x80 OR drop_bit 7 temp),
                 timestamp = ucast (0x80 OR (temp AND 0x003f)),
                 status = 0x80,
                 note = n,
                 velocity = v\<rparr>;
          s1 = s\<lparr>note_off := pkt\<rparr>;
          (sc, s2) = invoke stk (Gatt_server_send_notification (conn_handle s1)
                       (midi_report_characteristic_handle s1) 5 (payload (note_off s1))) s1
      in s2)"

subsection \<open>The main loop (lines 113-128)\<close>

text \<open>
  \<open>midiA.read()\<close> belongs to the MIDI library, which is not part of the sketch. All it does
  to the sketch is call the two registered callbacks, so one call of \<open>read\<close> is given by the
  callbacks it makes, in order.
\<close>

datatype midi_callback = NoteOn u8 u8 u8 | NoteOff u8 u8 u8

fun midiA_read :: "midi_callback list \<Rightarrow> sketch \<Rightarrow> sketch" where
  "midiA_read [] s = s"
| "midiA_read (NoteOn c p v # ms) s = midiA_read ms (handleNoteOn c p v s)"
| "midiA_read (NoteOff c p v # ms) s = midiA_read ms (handleNoteOff c p v s)"

text \<open>
  One iteration of \<open>loop\<close>. \<open>now_on\<close> and \<open>now_off\<close> are the two timer readings, one inside
  each of \<open>midi_note_on\<close> and \<open>midi_note_off\<close>.
\<close>

definition loop :: "stack \<Rightarrow> midi_callback list \<Rightarrow> u32 \<Rightarrow> u32 \<Rightarrow> sketch \<Rightarrow> sketch" where
  "loop stk ms now_on now_off s =
     (let s = midiA_read ms s;
          s = (if note_on_event s
               then midi_note_on stk now_on (note_to_send s) (note_velocity s)
                      (s\<lparr>note_on_event := False\<rparr>)
               else s);
          s = (if note_off_event s
               then midi_note_off stk now_off (note_to_send s) (note_velocity s)
                      (s\<lparr>note_off_event := False\<rparr>)
               else s)
      in s)"

subsection \<open>Assertions\<close>

text \<open>
  The macro \<open>app_assert_status\<close> comes from the board support package, not from the sketch,
  so what it does is a parameter of every function that uses it. The macro receives the
  status and nothing else: it is a predicate on statuses, \<open>True\<close> when execution goes on to
  the next statement and \<open>False\<close> when the program halts there.
\<close>

type_synonym assertion = "sl_status_t \<Rightarrow> bool"

text \<open>
  A function that contains assertions either returns (\<open>Returns\<close>) or halts inside
  (\<open>Halts\<close>); both carry the variables and the calls made up to that point.
\<close>

datatype outcome = Returns sketch | Halts sketch

fun and_then :: "outcome \<Rightarrow> (sketch \<Rightarrow> outcome) \<Rightarrow> outcome" where
  "and_then (Returns s) f = f s"
| "and_then (Halts s) f = Halts s"

text \<open>A call followed by \<open>app_assert_status(sc)\<close>.\<close>

definition asserted :: "assertion \<Rightarrow> sl_status_t \<times> sketch \<Rightarrow> outcome" where
  "asserted app_assert_status r =
     (if app_assert_status (fst r) then Returns (snd r) else Halts (snd r))"

text \<open>A call without output parameter: only the status comes back.\<close>

definition status_only :: "answer \<times> sketch \<Rightarrow> sl_status_t \<times> sketch" where
  "status_only r = (fst (fst r), snd r)"

text \<open>Storing what the stack wrote through an output parameter.\<close>

definition store :: "(sketch \<Rightarrow> u16 \<Rightarrow> sketch) \<Rightarrow> answer \<times> sketch \<Rightarrow> sl_status_t \<times> sketch" where
  "store upd r =
     (case r of ((sc, out), s) \<Rightarrow>
        (sc, case out of None \<Rightarrow> s | Some h \<Rightarrow> upd s h))"

subsection \<open>Advertising (lines 269-299)\<close>

definition ble_start_advertising :: "assertion \<Rightarrow> stack \<Rightarrow> sketch \<Rightarrow> outcome" where
  "ble_start_advertising chk stk s =
     and_then
       (if init s then
          and_then (asserted chk (store (\<lambda>s h. s\<lparr>advertising_set_handle := ucast h\<rparr>)
                      (invoke stk Advertiser_create_set s)))
          (\<lambda>s. and_then (asserted chk (status_only
                      (invoke stk (Advertiser_set_timing (advertising_set_handle s)
                         160 160 0 0) s)))
          (\<lambda>s. Returns (s\<lparr>init := False\<rparr>)))
        else Returns s)
     (\<lambda>s. and_then (asserted chk (status_only
                      (invoke stk (Legacy_advertiser_generate_data (advertising_set_handle s)
                         sl_bt_advertiser_general_discoverable) s)))
     (\<lambda>s. asserted chk (status_only
                      (invoke stk (Legacy_advertiser_start (advertising_set_handle s)
                         sl_bt_advertiser_connectable_scannable) s))))"

subsection \<open>The GATT database (lines 305-382)\<close>

text \<open>
  \<open>advertised_name\<close> is the array of line 133, with the terminating zero byte of the string
  literal; the sketch passes \<open>sizeof(advertised_name) - 1\<close> as its length, so the stack
  reads the bytes before the terminator.
\<close>

definition advertised_name :: "u8 list" where
  "advertised_name = map of_char ''MIDI BLE Example'' @ [0]"

definition generic_access_service_uuid :: "u8 list" where
  "generic_access_service_uuid = [0x00, 0x18]"

definition device_name_characteristic_uuid :: "u8 list" where
  "device_name_characteristic_uuid = [0x00, 0x2A]"

definition midi_service_uuid :: "u8 list" where
  "midi_service_uuid = [0x00, 0xC7, 0xC4, 0x4E, 0xE3, 0x6C, 0x51, 0xA7,
                        0x33, 0x4B, 0xE8, 0xED, 0x5A, 0x0E, 0xB8, 0x03]"

definition midi_report_characteristic_uuid :: "u8 list" where
  "midi_report_characteristic_uuid = [0xF3, 0x6B, 0x10, 0x9D, 0x66, 0xF2, 0xA9, 0xA1,
                                      0x12, 0x41, 0x68, 0x38, 0xDB, 0xE5, 0x72, 0x77]"

text \<open>
  The call that adds the MIDI characteristic (lines 361-373): \<open>midi_char_init_value\<close> is one
  \<open>uint8_t\<close> with value 0, the maximum length is the literal 1 and the initial length is
  \<open>sizeof(midi_char_init_value)\<close>, which is 1.
\<close>

definition add_midi_characteristic :: "sketch \<Rightarrow> call" where
  "add_midi_characteristic s =
     Gattdb_add_uuid128_characteristic (gattdb_session_id s) (midi_service_handle s)
       [SL_BT_GATTDB_CHARACTERISTIC_READ, SL_BT_GATTDB_CHARACTERISTIC_NOTIFY,
        SL_BT_GATTDB_CHARACTERISTIC_WRITE]
       0x00 0x00 midi_report_characteristic_uuid sl_bt_gattdb_fixed_length_value
       1 1 [0]"

text \<open>
  The status of \<open>sl_bt_gattdb_add_uuid128_characteristic\<close> is the only one of this function
  that is not asserted: \<open>sc\<close> is overwritten by the next call.
\<close>

definition ble_initialize_gatt_db :: "assertion \<Rightarrow> stack \<Rightarrow> sketch \<Rightarrow> outcome" where
  "ble_initialize_gatt_db chk stk s =
     and_then (asserted chk (store (\<lambda>s h. s\<lparr>gattdb_session_id := h\<rparr>)
                 (invoke stk Gattdb_new_session s)))
     (\<lambda>s. and_then (asserted chk (store (\<lambda>s h. s\<lparr>generic_access_service_handle := h\<rparr>)
                 (invoke stk (Gattdb_add_service (gattdb_session_id s)
                    sl_bt_gattdb_primary_service SL_BT_GATTDB_ADVERTISED_SERVICE
                    (length generic_access_service_uuid) generic_access_service_uuid) s)))
     (\<lambda>s. and_then (asserted chk (store (\<lambda>s h. s\<lparr>name_characteristic_handle := h\<rparr>)
                 (invoke stk (Gattdb_add_uuid16_characteristic (gattdb_session_id s)
                    (generic_access_service_handle s) [SL_BT_GATTDB_CHARACTERISTIC_READ]
                    0x00 0x00 device_name_characteristic_uuid sl_bt_gattdb_fixed_length_value
                    (length advertised_name - 1) (length advertised_name - 1)
                    (take (length advertised_name - 1) advertised_name)) s)))
     (\<lambda>s. and_then (asserted chk (status_only
                 (invoke stk (Gattdb_start_service (gattdb_session_id s)
                    (generic_access_service_handle s)) s)))
     (\<lambda>s. and_then (asserted chk (store (\<lambda>s h. s\<lparr>midi_service_handle := h\<rparr>)
                 (invoke stk (Gattdb_add_service (gattdb_session_id s)
                    sl_bt_gattdb_primary_service SL_BT_GATTDB_ADVERTISED_SERVICE
                    (length midi_service_uuid) midi_service_uuid) s)))
     (\<lambda>s. and_then (Returns (snd (store (\<lambda>s h. s\<lparr>midi_report_characteristic_handle := h\<rparr>)
                 (invoke stk (add_midi_characteristic s) s))))
     (\<lambda>s. and_then (asserted chk (status_only
                 (invoke stk (Gattdb_start_service (gattdb_session_id s)
                    (midi_service_handle s)) s)))
     (\<lambda>s. asserted chk (status_only
                 (invoke stk (Gattdb_commit (gattdb_session_id s)) s)))))))))"

subsection \<open>The Bluetooth event handler (lines 146-181)\<close>

text \<open>
  The events of the stack, by the \<open>case\<close> labels of the \<open>switch\<close>; \<open>other_event_id\<close> stands
  for every identifier that reaches \<open>default\<close>. Only \<open>connection_opened\<close> has data that the
  handler reads.
\<close>

datatype sl_bt_msg_t =
    sl_bt_evt_system_boot_id
  | sl_bt_evt_connection_opened_id u8
  | sl_bt_evt_connection_closed_id
  | sl_bt_evt_gatt_server_attribute_value_id
  | other_event_id

fun sl_bt_on_event :: "assertion \<Rightarrow> stack \<Rightarrow> sl_bt_msg_t \<Rightarrow> sketch \<Rightarrow> outcome" where
  "sl_bt_on_event chk stk sl_bt_evt_system_boot_id s =
     and_then (ble_initialize_gatt_db chk stk s) (ble_start_advertising chk stk)"
| "sl_bt_on_event chk stk (sl_bt_evt_connection_opened_id connection) s =
     Returns (s\<lparr>conn_handle := connection\<rparr>)"
| "sl_bt_on_event chk stk sl_bt_evt_connection_closed_id s = ble_start_advertising chk stk s"
| "sl_bt_on_event chk stk sl_bt_evt_gatt_server_attribute_value_id s = Returns s"
| "sl_bt_on_event chk stk other_event_id s = Returns s"

subsection \<open>The program as a whole\<close>

text \<open>
  The firmware alternates between iterations of \<open>loop\<close> and events that the stack
  delivers to \<open>sl_bt_on_event\<close>; once an assertion has halted it, nothing more happens.
\<close>

datatype stimulus =
    Event sl_bt_msg_t
  | Loop "midi_callback list" u32 u32

fun react :: "assertion \<Rightarrow> stack \<Rightarrow> stimulus \<Rightarrow> sketch \<Rightarrow> outcome" where
  "react chk stk (Event evt) s = sl_bt_on_event chk stk evt s"
| "react chk stk (Loop ms now_on now_off) s = Returns (loop stk ms now_on now_off s)"

fun run :: "assertion \<Rightarrow> stack \<Rightarrow> stimulus list \<Rightarrow> sketch \<Rightarrow> outcome" where
  "run chk stk [] s = Returns s"
| "run chk stk (x # xs) s = and_then (react chk stk x s) (run chk stk xs)"

text \<open>The variables and calls of an outcome, and whether the program is still running.\<close>

fun final :: "outcome \<Rightarrow> sketch" where
  "final (Returns s) = s"
| "final (Halts s) = s"

fun running :: "outcome \<Rightarrow> bool" where
  "running (Returns s) = True"
| "running (Halts s) = False"

text \<open>
  Modelled from the spec: \<open>app_assert_status\<close> is not part of the sketch. Section 4.3 of
  the specification gives its effect where the sketch applies it to set creation, timing
  configuration and the commit of the attribute table: a non-success status "is fatal and
  halts the system". The same section says that a non-success status from re-advertising
  after a disconnect is non-fatal and logged; the macro sees only the status and the
  sketch applies it on both paths, so that second sentence is a statement about the
  sketch and not a description of the macro. \<open>halt_on_failure\<close> is the macro of the first
  sentence; the functions of the sketch above do not depend on it.
\<close>

definition halt_on_failure :: assertion where
  "halt_on_failure sc = (sc = SL_STATUS_OK)"

text \<open>A stack that answers every call with success and stores handle \<open>h\<close>.\<close>

definition obliging :: "u16 \<Rightarrow> stack" where
  "obliging h = (\<lambda>cs c. (SL_STATUS_OK, Some h))"

text \<open>
  A stack that answers with success until the sketch has made \<open>k\<close> calls, and with a
  failure from then on.
\<close>

definition refusing_from :: "nat \<Rightarrow> stack" where
  "refusing_from k = (\<lambda>cs c. if k \<le> length cs then (SL_STATUS_FAIL 1, None)
                                else (SL_STATUS_OK, Some 7))"

subsection \<open>Counting the one-time advertiser set-up\<close>

fun is_create_set :: "call \<Rightarrow> bool" where
  "is_create_set Advertiser_create_set = True"
| "is_create_set c = False"

fun is_set_timing :: "call \<Rightarrow> bool" where
  "is_set_timing (Advertiser_set_timing h lo hi d n) = True"
| "is_set_timing c = False"

definition times_called :: "(call \<Rightarrow> bool) \<Rightarrow> sketch \<Rightarrow> nat" where
  "times_called P s = length (filter P (calls s))"

text \<open>
  The invariant behind the guard \<open>init\<close>: while \<open>init\<close> is still set neither call has been
  made; in any case each has been made at most once.
\<close>

definition at_most_once :: "sketch \<Rightarrow> bool" where
  "at_most_once s = (times_called is_create_set s \<le> 1 \<and> times_called is_set_timing s \<le> 1)"

definition set_once :: "sketch \<Rightarrow> bool" where
  "set_once s = (if init s
                 then times_called is_create_set s = 0 \<and> times_called is_set_timing s = 0
                 else at_most_once s)"

fun holds :: "outcome \<Rightarrow> bool" where
  "holds (Returns s) = set_once s"
| "holds (Halts s) = at_most_once s"

section \<open>Auxiliary facts\<close>

subsection \<open>Bytes of the packet\<close>

lemma x3f_mask: "(0x3f :: 'a::len word) = mask 6"
  by (simp add: mask_eq_exp_minus_1)

lemma x1fff_mask: "(0x1fff :: 'a::len word) = mask 13"
  by (simp add: mask_eq_exp_minus_1)

lemma x1fbf_mask: "(0x1FBF :: u32) = push_bit 7 (mask 6) OR mask 6"
  by (simp add: mask_eq_exp_minus_1 push_bit_eq_mult)

lemma bit_x80: "bit (0x80 :: int) k \<longleftrightarrow> k = 7"
  using bit_exp_iff [where ?'a = int, of 7 k] by (auto simp: bit_simps)

lemma header_fits:
  "(ucast (ucast ((0x80::u32) OR drop_bit 7 (now AND 0x1fff)) :: u8) :: u32)
     = 0x80 OR drop_bit 7 (now AND 0x1fff)"
  unfolding x3f_mask x1fff_mask
  by (rule bit_word_eqI) (auto simp: bit_simps bit_x80)

lemma timestamp_fits:
  "(ucast (ucast ((0x80::u32) OR ((now AND 0x1fff) AND 0x3f)) :: u8) :: u32)
     = 0x80 OR ((now AND 0x1fff) AND 0x3f)"
  unfolding x3f_mask x1fff_mask
  by (rule bit_word_eqI) (auto simp: bit_simps bit_x80)

lemma recovered_timestamp:
  "push_bit 7 (ucast ((ucast ((0x80::u32) OR drop_bit 7 (now AND 0x1fff)) :: u8) AND 0x3F) :: u32)
     OR ucast ((ucast ((0x80::u32) OR ((now AND 0x1fff) AND 0x3f)) :: u8) AND 0x3F)
   = now AND 0x1FBF"
  unfolding x3f_mask x1fff_mask x1fbf_mask
  by (rule bit_word_eqI) (auto simp: bit_simps bit_x80)

lemma note_on_buffer:
  "note_on (midi_note_on stk now n v s) =
     \<lparr>header = ucast (0x80 OR drop_bit 7 (now AND 0x1fff)),
      timestamp = ucast (0x80 OR ((now AND 0x1fff) AND 0x3f)),
      status = 0x90, note = n, velocity = v\<rparr>"
  by (simp add: midi_note_on_def invoke_def Let_def)

lemma note_off_buffer:
  "note_off (midi_note_off stk now n v s) =
     \<lparr>header = ucast (0x80 OR drop_bit 7 (now AND 0x1fff)),
      timestamp = ucast (0x80 OR ((now AND 0x1fff) AND 0x3f)),
      status = 0x80, note = n, velocity = v\<rparr>"
  by (simp add: midi_note_off_def invoke_def Let_def)

subsection \<open>Steps of the functions that call the stack\<close>

lemma and_thenE:
  assumes "and_then r f = Returns s'"
  obtains s1 where "r = Returns s1" and "f s1 = Returns s'"
  using assms by (cases r) auto

lemma asserted_Returns: "asserted chk r = Returns s1 \<longleftrightarrow> chk (fst r) \<and> s1 = snd r"
  by (auto simp: asserted_def)

lemma snd_status_only: "snd (status_only (invoke stk c s)) = s\<lparr>calls := calls s @ [c]\<rparr>"
  by (simp add: status_only_def invoke_def)

lemma snd_store:
  "snd (store upd (invoke stk c s)) =
     (case snd (stk (calls s) c) of None \<Rightarrow> s\<lparr>calls := calls s @ [c]\<rparr>
      | Some h \<Rightarrow> upd (s\<lparr>calls := calls s @ [c]\<rparr>) h)"
  by (simp add: store_def invoke_def split: prod.splits)

lemma plain_step:
  assumes "asserted chk (status_only (invoke stk c s)) = Returns s1"
  shows "s1 = s\<lparr>calls := calls s @ [c]\<rparr>"
  using assms by (simp only: asserted_Returns snd_status_only)

lemma snd_store_ex:
  assumes "\<And>t. upd t (get t) = t"
  shows "\<exists>v. snd (store upd (invoke stk c s)) = upd (s\<lparr>calls := calls s @ [c]\<rparr>) v"
proof (cases "snd (stk (calls s) c)")
  case None
  then have "snd (store upd (invoke stk c s)) = s\<lparr>calls := calls s @ [c]\<rparr>"
    by (simp only: snd_store option.case)
  also have "\<dots> = upd (s\<lparr>calls := calls s @ [c]\<rparr>) (get (s\<lparr>calls := calls s @ [c]\<rparr>))"
    by (simp only: assms)
  finally show ?thesis by (rule exI)
next
  case (Some h)
  then have "snd (store upd (invoke stk c s)) = upd (s\<lparr>calls := calls s @ [c]\<rparr>) h"
    by (simp only: snd_store option.case)
  then show ?thesis by (rule exI)
qed

lemma store_step:
  assumes "asserted chk (store upd (invoke stk c s)) = Returns s1"
    and "\<And>t. upd t (get t) = t"
  shows "\<exists>v. s1 = upd (s\<lparr>calls := calls s @ [c]\<rparr>) v"
proof -
  from assms(1) have "s1 = snd (store upd (invoke stk c s))"
    by (simp only: asserted_Returns)
  with snd_store_ex [of upd get, OF assms(2)] show ?thesis by simp
qed

lemma loose_step:
  assumes "Returns (snd (store upd (invoke stk c s))) = Returns s1"
    and "\<And>t. upd t (get t) = t"
  shows "\<exists>v. s1 = upd (s\<lparr>calls := calls s @ [c]\<rparr>) v"
proof -
  from assms(1) have "s1 = snd (store upd (invoke stk c s))"
    by simp
  with snd_store_ex [of upd get, OF assms(2)] show ?thesis by simp
qed

lemma session_step:
  assumes "asserted chk (store (\<lambda>s h. s\<lparr>gattdb_session_id := h\<rparr>) (invoke stk c s)) = Returns s1"
  shows "\<exists>v. s1 = s\<lparr>calls := calls s @ [c], gattdb_session_id := v\<rparr>"
  using store_step [OF assms, where get = gattdb_session_id] by simp

lemma generic_step:
  assumes "asserted chk (store (\<lambda>s h. s\<lparr>generic_access_service_handle := h\<rparr>) (invoke stk c s)) = Returns s1"
  shows "\<exists>v. s1 = s\<lparr>calls := calls s @ [c], generic_access_service_handle := v\<rparr>"
  using store_step [OF assms, where get = generic_access_service_handle] by simp

lemma name_step:
  assumes "asserted chk (store (\<lambda>s h. s\<lparr>name_characteristic_handle := h\<rparr>) (invoke stk c s)) = Returns s1"
  shows "\<exists>v. s1 = s\<lparr>calls := calls s @ [c], name_characteristic_handle := v\<rparr>"
  using store_step [OF assms, where get = name_characteristic_handle] by simp

lemma service_step:
  assumes "asserted chk (store (\<lambda>s h. s\<lparr>midi_service_handle := h\<rparr>) (invoke stk c s)) = Returns s1"
  shows "\<exists>v. s1 = s\<lparr>calls := calls s @ [c], midi_service_handle := v\<rparr>"
  using store_step [OF assms, where get = midi_service_handle] by simp

lemma report_step:
  assumes "Returns (snd (store (\<lambda>s h. s\<lparr>midi_report_characteristic_handle := h\<rparr>) (invoke stk c s))) = Returns s1"
  shows "\<exists>v. s1 = s\<lparr>calls := calls s @ [c], midi_report_characteristic_handle := v\<rparr>"
  using loose_step [OF assms, where get = midi_report_characteristic_handle] by simp

lemma length_advertised_name: "length advertised_name = 17"
  by (simp add: advertised_name_def)

lemma length_generic_access_service_uuid: "length generic_access_service_uuid = 2"
  by (simp add: generic_access_service_uuid_def)

lemma length_midi_service_uuid: "length midi_service_uuid = 16"
  by (simp add: midi_service_uuid_def)

lemma gatt_trace:
  assumes "ble_initialize_gatt_db chk stk s = Returns s'"
  shows "calls s' = calls s @
    [Gattdb_new_session,
     Gattdb_add_service (gattdb_session_id s') sl_bt_gattdb_primary_service
       SL_BT_GATTDB_ADVERTISED_SERVICE 2 generic_access_service_uuid,
     Gattdb_add_uuid16_characteristic (gattdb_session_id s') (generic_access_service_handle s')
       [SL_BT_GATTDB_CHARACTERISTIC_READ] 0 0 device_name_characteristic_uuid
       sl_bt_gattdb_fixed_length_value 16 16 (take 16 advertised_name),
     Gattdb_start_service (gattdb_session_id s') (generic_access_service_handle s'),
     Gattdb_add_service (gattdb_session_id s') sl_bt_gattdb_primary_service
       SL_BT_GATTDB_ADVERTISED_SERVICE 16 midi_service_uuid,
     add_midi_characteristic s',
     Gattdb_start_service (gattdb_session_id s') (midi_service_handle s'),
     Gattdb_commit (gattdb_session_id s')]
    \<and> init s' = init s \<and> advertising_set_handle s' = advertising_set_handle s
    \<and> conn_handle s' = conn_handle s"
  using assms unfolding ble_initialize_gatt_db_def
  apply (elim and_thenE)
  apply (drule session_step generic_step name_step service_step report_step plain_step)+
  apply (clarsimp simp: add_midi_characteristic_def length_advertised_name
        length_generic_access_service_uuid length_midi_service_uuid)
  done

lemma adv_step:
  assumes "asserted chk (store (\<lambda>s h. s\<lparr>advertising_set_handle := ucast h\<rparr>) (invoke stk c s))
             = Returns s1"
  shows "\<exists>v. s1 = s\<lparr>calls := calls s @ [c], advertising_set_handle := v\<rparr>"
proof -
  from assms have s1: "s1 = snd (store (\<lambda>s h. s\<lparr>advertising_set_handle := ucast h\<rparr>)
                               (invoke stk c s))"
    by (simp only: asserted_Returns)
  show ?thesis
  proof (cases "snd (stk (calls s) c)")
    case None
    with s1 have "s1 = s\<lparr>calls := calls s @ [c],
                          advertising_set_handle := advertising_set_handle s\<rparr>"
      by (simp add: snd_store)
    then show ?thesis by (rule exI)
  next
    case (Some h)
    with s1 have "s1 = s\<lparr>calls := calls s @ [c], advertising_set_handle := ucast h\<rparr>"
      by (simp add: snd_store)
    then show ?thesis by (rule exI)
  qed
qed

lemma start_advertising_first:
  assumes "init s" and "ble_start_advertising chk stk s = Returns s'"
  shows "s' = s\<lparr>calls := calls s @
             [Advertiser_create_set,
              Advertiser_set_timing (advertising_set_handle s') 160 160 0 0,
              Legacy_advertiser_generate_data (advertising_set_handle s')
                sl_bt_advertiser_general_discoverable,
              Legacy_advertiser_start (advertising_set_handle s')
                sl_bt_advertiser_connectable_scannable],
           advertising_set_handle := advertising_set_handle s', init := False\<rparr>"
  using assms unfolding ble_start_advertising_def
  apply (simp only: if_True)
  apply (elim and_thenE)
  apply (drule adv_step plain_step)+
  apply clarsimp
  done

lemma start_advertising_again:
  assumes "\<not> init s" and "ble_start_advertising chk stk s = Returns s'"
  shows "s' = s\<lparr>calls := calls s @
             [Legacy_advertiser_generate_data (advertising_set_handle s)
                sl_bt_advertiser_general_discoverable,
              Legacy_advertiser_start (advertising_set_handle s)
                sl_bt_advertiser_connectable_scannable]\<rparr>"
  using assms unfolding ble_start_advertising_def
  apply (simp only: if_False)
  apply (elim and_thenE)
  apply (drule plain_step)+
  apply clarsimp
  done

subsection \<open>The guard \<open>init\<close>\<close>

lemma set_once_at_most_once: "set_once s \<Longrightarrow> at_most_once s"
  by (simp add: set_once_def at_most_once_def split: if_splits)

lemma holds_final: "holds r \<Longrightarrow> at_most_once (final r)"
  by (cases r) (simp_all add: set_once_at_most_once)

lemma holds_and_then:
  assumes "holds r" and "\<And>s. set_once s \<Longrightarrow> holds (f s)"
  shows "holds (and_then r f)"
  using assms by (cases r) simp_all

lemma set_once_other_call:
  assumes "set_once s" and "\<not> is_create_set c" and "\<not> is_set_timing c"
  shows "set_once (s\<lparr>calls := calls s @ [c]\<rparr>)"
  using assms
  by (cases "init s") (simp_all add: set_once_def at_most_once_def times_called_def)

lemma set_once_frame:
  assumes "set_once s" and "init t = init s" and "calls t = calls s"
  shows "set_once t"
  using assms
  by (cases "init s") (simp_all add: set_once_def at_most_once_def times_called_def)

lemma holds_plain:
  assumes "set_once s" and "\<not> is_create_set c" and "\<not> is_set_timing c"
  shows "holds (asserted chk (status_only (invoke stk c s)))"
  using set_once_other_call [OF assms]
  by (simp add: asserted_def snd_status_only set_once_at_most_once)

lemma set_once_store:
  assumes "set_once s" and "\<not> is_create_set c" and "\<not> is_set_timing c"
    and "\<And>t h. init (upd t h) = init t" and "\<And>t h. calls (upd t h) = calls t"
  shows "set_once (snd (store upd (invoke stk c s)))"
proof (cases "snd (stk (calls s) c)")
  case None
  with set_once_other_call [OF assms(1-3)] show ?thesis
    by (simp add: snd_store)
next
  case (Some h)
  have "set_once (upd (s\<lparr>calls := calls s @ [c]\<rparr>) h)"
    by (rule set_once_frame [OF set_once_other_call [OF assms(1-3)]]) (simp_all add: assms(4,5))
  with Some show ?thesis
    by (simp add: snd_store)
qed

lemma holds_store:
  assumes "set_once s" and "\<not> is_create_set c" and "\<not> is_set_timing c"
    and "\<And>t h. init (upd t h) = init t" and "\<And>t h. calls (upd t h) = calls t"
  shows "holds (asserted chk (store upd (invoke stk c s)))"
  using set_once_store [OF assms]
  by (simp add: asserted_def set_once_at_most_once)

lemma holds_loose:
  assumes "set_once s" and "\<not> is_create_set c" and "\<not> is_set_timing c"
    and "\<And>t h. init (upd t h) = init t" and "\<And>t h. calls (upd t h) = calls t"
  shows "holds (Returns (snd (store upd (invoke stk c s))))"
  using set_once_store [OF assms] by simp

lemma holds_gatt_db:
  assumes "set_once s"
  shows "holds (ble_initialize_gatt_db chk stk s)"
  unfolding ble_initialize_gatt_db_def
  by (intro holds_and_then holds_plain holds_store holds_loose assms)
     (simp_all add: add_midi_characteristic_def)

lemma holds_advertising_tail:
  assumes "set_once s"
  shows "holds (and_then (asserted chk (status_only (invoke stk
            (Legacy_advertiser_generate_data (advertising_set_handle s) d) s)))
          (\<lambda>s. asserted chk (status_only (invoke stk
            (Legacy_advertiser_start (advertising_set_handle s) m) s))))"
  by (intro holds_and_then holds_plain assms) simp_all

lemma holds_advertising_head:
  assumes "set_once s"
  shows "holds (if init s then
          and_then (asserted chk (store (\<lambda>s h. s\<lparr>advertising_set_handle := ucast h\<rparr>)
                      (invoke stk Advertiser_create_set s)))
          (\<lambda>s. and_then (asserted chk (status_only
                      (invoke stk (Advertiser_set_timing (advertising_set_handle s)
                         160 160 0 0) s)))
          (\<lambda>s. Returns (s\<lparr>init := False\<rparr>)))
        else Returns s)"
proof (cases "init s")
  case False
  with assms show ?thesis by simp
next
  case True
  with assms have "filter is_create_set (calls s) = []" "filter is_set_timing (calls s) = []"
    by (simp_all add: set_once_def times_called_def)
  with True show ?thesis
    by (simp add: asserted_def snd_store snd_status_only set_once_def at_most_once_def
          times_called_def split: option.splits)
qed

lemma holds_start_advertising:
  assumes "set_once s"
  shows "holds (ble_start_advertising chk stk s)"
  unfolding ble_start_advertising_def
  by (rule holds_and_then [OF holds_advertising_head [OF assms] holds_advertising_tail])

lemma midiA_read_frame:
  "calls (midiA_read ms s) = calls s \<and> init (midiA_read ms s) = init s
   \<and> conn_handle (midiA_read ms s) = conn_handle s
   \<and> midi_report_characteristic_handle (midiA_read ms s) = midi_report_characteristic_handle s"
  by (induction ms s rule: midiA_read.induct) (simp_all add: handleNoteOn_def handleNoteOff_def)

lemma set_once_loop:
  assumes "set_once s"
  shows "set_once (loop stk ms now_on now_off s)"
  using assms
  by (cases "init s")
     (simp_all add: loop_def Let_def midi_note_on_def midi_note_off_def invoke_def
        set_once_def at_most_once_def times_called_def midiA_read_frame)

lemma holds_react:
  assumes "set_once s"
  shows "holds (react chk stk x s)"
proof (cases x)
  case (Event evt)
  show ?thesis
  proof (cases evt)
    case sl_bt_evt_system_boot_id
    with Event assms show ?thesis
      by (simp add: holds_and_then holds_gatt_db holds_start_advertising)
  next
    case (sl_bt_evt_connection_opened_id connection)
    have "set_once (s\<lparr>conn_handle := connection\<rparr>)"
      by (rule set_once_frame [OF assms]) simp_all
    with Event sl_bt_evt_connection_opened_id show ?thesis by simp
  next
    case sl_bt_evt_connection_closed_id
    with Event assms show ?thesis by (simp add: holds_start_advertising)
  next
    case sl_bt_evt_gatt_server_attribute_value_id
    with Event assms show ?thesis by simp
  next
    case other_event_id
    with Event assms show ?thesis by simp
  qed
next
  case (Loop ms now_on now_off)
  with assms show ?thesis by (simp add: set_once_loop)
qed

lemma holds_run:
  assumes "set_once s"
  shows "holds (run chk stk xs s)"
  using assms
proof (induction xs arbitrary: s)
  case Nil
  then show ?case by simp
next
  case (Cons x xs)
  then show ?case by (simp add: holds_and_then holds_react)
qed

lemma set_once_startup: "set_once startup"
  by (simp add: set_once_def startup_def times_called_def)

subsection \<open>Evaluation on concrete inputs\<close>

lemmas model_defs = ble_initialize_gatt_db_def ble_start_advertising_def asserted_def
  status_only_def store_def invoke_def halt_on_failure_def obliging_def refusing_from_def
  startup_def add_midi_characteristic_def loop_def midi_note_on_def midi_note_off_def
  handleNoteOn_def handleNoteOff_def Let_def payload_def zero_packet_def times_called_def

lemma Returns_final: "running r \<Longrightarrow> r = Returns (final r)"
  by (cases r) simp_all

lemma Halts_and_then: "\<not> running r \<Longrightarrow> and_then r f = r"
  by (cases r) simp_all

subsection \<open>The boot event and the guard\<close>

lemma init_loop: "init (loop stk ms t1 t2 s) = init s"
  by (simp add: loop_def Let_def midi_note_on_def midi_note_off_def invoke_def midiA_read_frame)

lemma start_advertising_clears_init:
  assumes "ble_start_advertising chk stk s = Returns s'"
  shows "\<not> init s'"
proof (cases "init s")
  case True
  from arg_cong [OF start_advertising_first [OF True assms], of init] show ?thesis by simp
next
  case False
  from arg_cong [OF start_advertising_again [OF False assms], of init] False
  show ?thesis by simp
qed

lemma boot_clears_init:
  assumes "sl_bt_on_event chk stk sl_bt_evt_system_boot_id s = Returns s'"
  shows "\<not> init s'"
  using assms by (auto elim!: and_thenE dest: start_advertising_clears_init)

lemma react_keeps_init_clear:
  assumes "\<not> init s" and "react chk stk x s = Returns s'"
  shows "\<not> init s'"
proof (cases x)
  case (Event evt)
  with assms have e: "sl_bt_on_event chk stk evt s = Returns s'" by simp
  show ?thesis
  proof (cases evt)
    case sl_bt_evt_system_boot_id
    from e [unfolded sl_bt_evt_system_boot_id] show ?thesis by (rule boot_clears_init)
  next
    case (sl_bt_evt_connection_opened_id connection)
    with e assms(1) show ?thesis by auto
  next
    case sl_bt_evt_connection_closed_id
    with e show ?thesis by (auto dest: start_advertising_clears_init)
  next
    case sl_bt_evt_gatt_server_attribute_value_id
    with e assms(1) show ?thesis by auto
  next
    case other_event_id
    with e assms(1) show ?thesis by auto
  qed
next
  case (Loop ms t1 t2)
  with assms show ?thesis by (auto simp: init_loop)
qed

lemma run_after_boot:
  assumes "run chk stk xs s = Returns s'"
    and "\<not> init s \<or> Event sl_bt_evt_system_boot_id \<in> set xs"
  shows "\<not> init s'"
  using assms
proof (induction xs arbitrary: s)
  case Nil
  then show ?case by simp
next
  case (Cons x xs)
  from Cons.prems(1) obtain s1 where
    x: "react chk stk x s = Returns s1" and xs: "run chk stk xs s1 = Returns s'"
    by (auto elim: and_thenE)
  show ?case
  proof (cases "\<not> init s \<or> x = Event sl_bt_evt_system_boot_id")
    case True
    then have "\<not> init s1"
    proof
      assume "\<not> init s"
      then show ?thesis using x by (rule react_keeps_init_clear)
    next
      assume "x = Event sl_bt_evt_system_boot_id"
      with x have "sl_bt_on_event chk stk sl_bt_evt_system_boot_id s = Returns s1"
        by (simp only: react.simps)
      then show ?thesis by (rule boot_clears_init)
    qed
    with Cons.IH [OF xs] show ?thesis by simp
  next
    case False
    with Cons.prems(2) have "Event sl_bt_evt_system_boot_id \<in> set xs" by auto
    with Cons.IH [OF xs] show ?thesis by simp
  qed
qed

lemma first_boot:
  assumes "init s" and "sl_bt_on_event chk stk sl_bt_evt_system_boot_id s = Returns s'"
  shows "drop (length (calls s) + 8) (calls s') =
           [Advertiser_create_set,
            Advertiser_set_timing (advertising_set_handle s') 160 160 0 0,
            Legacy_advertiser_generate_data (advertising_set_handle s')
              sl_bt_advertiser_general_discoverable,
            Legacy_advertiser_start (advertising_set_handle s')
              sl_bt_advertiser_connectable_scannable]
       \<and> times_called is_create_set s' = times_called is_create_set s + 1
       \<and> times_called is_set_timing s' = times_called is_set_timing s + 1"
proof -
  from assms(2) obtain s1 where
    g: "ble_initialize_gatt_db chk stk s = Returns s1" and
    a: "ble_start_advertising chk stk s1 = Returns s'"
    by (auto elim: and_thenE)
  note t = gatt_trace [OF g]
  with assms(1) have "init s1" by simp
  note u = start_advertising_first [OF this a]
  have c: "calls s' = calls s1 @
             [Advertiser_create_set,
              Advertiser_set_timing (advertising_set_handle s') 160 160 0 0,
              Legacy_advertiser_generate_data (advertising_set_handle s')
                sl_bt_advertiser_general_discoverable,
              Legacy_advertiser_start (advertising_set_handle s')
                sl_bt_advertiser_connectable_scannable]"
    using arg_cong [OF u, of calls] by simp
  from t have l: "length (calls s1) = length (calls s) + 8" by simp
  from t have f: "filter is_create_set (calls s1) = filter is_create_set (calls s)"
    "filter is_set_timing (calls s1) = filter is_set_timing (calls s)"
    by (simp_all add: add_midi_characteristic_def)
  show ?thesis
    using l f by (simp add: c times_called_def)
qed

lemma later_boot:
  assumes "\<not> init s" and "sl_bt_on_event chk stk sl_bt_evt_system_boot_id s = Returns s'"
  shows "times_called is_create_set s' = times_called is_create_set s
       \<and> times_called is_set_timing s' = times_called is_set_timing s"
proof -
  from assms(2) obtain s1 where
    g: "ble_initialize_gatt_db chk stk s = Returns s1" and
    a: "ble_start_advertising chk stk s1 = Returns s'"
    by (auto elim: and_thenE)
  note t = gatt_trace [OF g]
  with assms(1) have "\<not> init s1" by simp
  note u = start_advertising_again [OF this a]
  have c: "calls s' = calls s1 @
             [Legacy_advertiser_generate_data (advertising_set_handle s1)
                sl_bt_advertiser_general_discoverable,
              Legacy_advertiser_start (advertising_set_handle s1)
                sl_bt_advertiser_connectable_scannable]"
    using arg_cong [OF u, of calls] by simp
  from t have f: "filter is_create_set (calls s1) = filter is_create_set (calls s)"
    "filter is_set_timing (calls s1) = filter is_set_timing (calls s)"
    by (simp_all add: add_midi_characteristic_def)
  show ?thesis
    using f by (simp add: c times_called_def)
qed

section \<open>The claims\<close>

subsection \<open>The packet\<close>

text \<open>
  C1. Whatever the note, the velocity and the timer reading, \<open>midi_note_on\<close> and
  \<open>midi_note_off\<close> build the five bytes of the specification: with \<open>t = now AND 0x1FFF\<close>,
  the header is \<open>0x80 OR (t >> 7)\<close> and the timestamp byte is \<open>0x80 OR (t AND 0x3F)\<close> (the
  truncation to a byte loses nothing: widened back to 32 bits they are the 32-bit values),
  the status is \<open>0x90\<close> for note-on and \<open>0x80\<close> for note-off, note and velocity are the
  arguments unchanged, and the payload is these five bytes in this order. The functions are
  total, and the packet does not depend on the variables of the sketch or on the stack.
\<close>

theorem midi_note_packet:
  "(let t = now AND 0x1FFF;
        p = note_on (midi_note_on stk now n v s);
        q = note_off (midi_note_off stk now n v s)
    in (ucast (header p) :: u32) = 0x80 OR drop_bit 7 t
     \<and> (ucast (timestamp p) :: u32) = 0x80 OR (t AND 0x3F)
     \<and> status p = 0x90 \<and> note p = n \<and> velocity p = v
     \<and> (ucast (header q) :: u32) = 0x80 OR drop_bit 7 t
     \<and> (ucast (timestamp q) :: u32) = 0x80 OR (t AND 0x3F)
     \<and> status q = 0x80 \<and> note q = n \<and> velocity q = v
     \<and> payload p = [header p, timestamp p, 0x90, n, v]
     \<and> payload q = [header q, timestamp q, 0x80, n, v])"
  unfolding Let_def note_on_buffer note_off_buffer payload_def
  by (simp only: midi_event_packet_t.select_convs header_fits timestamp_fits simp_thms)

text \<open>
  C5. The timestamp that a receiver recovers from the two timestamp bytes as
  \<open>((header AND 0x3F) << 7) OR (timestampLow AND 0x3F)\<close> is \<open>now AND 0x1FBF\<close>: bit 6 of the
  timer reading is lost, all other bits of the low 13 come back.
\<close>

theorem timestamp_round_trip:
  "(let p = note_on (midi_note_on stk now n v s);
        q = note_off (midi_note_off stk now n v s)
    in push_bit 7 (ucast (header p AND 0x3F) :: u32) OR ucast (timestamp p AND 0x3F)
         = now AND 0x1FBF
     \<and> push_bit 7 (ucast (header q AND 0x3F) :: u32) OR ucast (timestamp q AND 0x3F)
         = now AND 0x1FBF)"
  unfolding Let_def note_on_buffer note_off_buffer
  by (simp only: midi_event_packet_t.select_convs recovered_timestamp simp_thms)

subsection \<open>Sending\<close>

text \<open>
  C2, as stated, is false: after boot, with no connection ever opened, a note-on received
  by the main loop is sent to the stack with the handle \<open>0xFF\<close>.
\<close>

theorem send_without_connection_counterexample:
  "conn_handle (final (run halt_on_failure (obliging 7) [Event sl_bt_evt_system_boot_id] startup)) = 0xFF
   \<and> last (calls (final (run halt_on_failure (obliging 7)
        [Event sl_bt_evt_system_boot_id, Loop [NoteOn 1 42 127] 1000 1000] startup)))
      = Gatt_server_send_notification 0xFF 7 5 [0x87, 0xA8, 0x90, 42, 127]"
  by (simp add: model_defs)

text \<open>
  C2, amended. \<open>midi_note_on\<close> and \<open>midi_note_off\<close> have no guard: in every state they call
  \<open>sl_bt_gatt_server_send_notification\<close> exactly once, with whatever \<open>conn_handle\<close> holds,
  the handle of the MIDI characteristic, length 5 and the packet; the status that comes
  back is discarded, so the result is the same whatever the stack answers.
\<close>

theorem send_unguarded:
  "calls (midi_note_on stk now n v s) = calls s @
     [Gatt_server_send_notification (conn_handle s) (midi_report_characteristic_handle s) 5
        (payload (note_on (midi_note_on stk now n v s)))]
   \<and> calls (midi_note_off stk now n v s) = calls s @
     [Gatt_server_send_notification (conn_handle s) (midi_report_characteristic_handle s) 5
        (payload (note_off (midi_note_off stk now n v s)))]
   \<and> midi_note_on stk now n v s = midi_note_on stk' now n v s
   \<and> midi_note_off stk now n v s = midi_note_off stk' now n v s"
  by (simp add: midi_note_on_def midi_note_off_def invoke_def Let_def)

subsection \<open>Pending notes\<close>

text \<open>
  C6, as stated, is false: a note-off callback that arrives while a note-on is pending
  replaces the pitch and velocity of the pending note-on, and the loop then sends the
  note-on with the data of the note-off.
\<close>

theorem shared_payload_counterexample:
  "note_on_event (handleNoteOff 1 20 7 (handleNoteOn 1 10 5 startup))
   \<and> note_to_send (handleNoteOff 1 20 7 (handleNoteOn 1 10 5 startup)) = 20
   \<and> note_velocity (handleNoteOff 1 20 7 (handleNoteOn 1 10 5 startup)) = 7
   \<and> calls (loop (obliging 7) [NoteOn 1 10 5, NoteOff 1 20 7] 1000 1000 startup)
      = [Gatt_server_send_notification 0xFF 0 5 [0x87, 0xA8, 0x90, 20, 7],
         Gatt_server_send_notification 0xFF 0 5 [0x87, 0xA8, 0x80, 20, 7]]"
  by (simp add: model_defs)

text \<open>
  C6, amended. There is one flag for each kind of event and a single pitch and velocity
  shared by both: either callback overwrites the pitch and the velocity and sets its own
  flag, leaving the other flag as it was. When \<open>read\<close> delivers a note-on and then a
  note-off in one iteration, both packets carry the pitch and velocity of the note-off.
\<close>

theorem note_payload_shared:
  "note_to_send (handleNoteOff c p v s) = p \<and> note_velocity (handleNoteOff c p v s) = v
   \<and> note_off_event (handleNoteOff c p v s)
   \<and> note_on_event (handleNoteOff c p v s) = note_on_event s
   \<and> note_to_send (handleNoteOn c p v s) = p \<and> note_velocity (handleNoteOn c p v s) = v
   \<and> note_on_event (handleNoteOn c p v s)
   \<and> note_off_event (handleNoteOn c p v s) = note_off_event s
   \<and> note (note_on (loop stk [NoteOn c' p' v', NoteOff c p v] t1 t2 s)) = p
   \<and> velocity (note_on (loop stk [NoteOn c' p' v', NoteOff c p v] t1 t2 s)) = v
   \<and> note (note_off (loop stk [NoteOn c' p' v', NoteOff c p v] t1 t2 s)) = p
   \<and> velocity (note_off (loop stk [NoteOn c' p' v', NoteOff c p v] t1 t2 s)) = v"
  by (simp add: handleNoteOn_def handleNoteOff_def loop_def Let_def midi_note_on_def
        midi_note_off_def invoke_def)

text \<open>
  C7. From a state with nothing pending, two note-on callbacks before the loop runs leave
  exactly one pending note-on (no note-off), with the pitch and velocity of the second
  call; the next iteration of the loop sends exactly one packet, a note-on with that pitch
  and velocity. For the calls \<open>(10, 5)\<close> and \<open>(10, 5)\<close> of the claim this is the packet
  \<open>(10, 5)\<close>.
\<close>

theorem note_on_last_write_wins:
  assumes "\<not> note_on_event s" and "\<not> note_off_event s"
  shows "(let s' = handleNoteOn c2 p2 v2 (handleNoteOn c1 p1 v1 s);
              s'' = loop stk [] t1 t2 s'
          in note_on_event s' \<and> \<not> note_off_event s'
           \<and> note_to_send s' = p2 \<and> note_velocity s' = v2
           \<and> calls s' = calls s
           \<and> calls s'' = calls s @ [Gatt_server_send_notification (conn_handle s)
                (midi_report_characteristic_handle s) 5 (payload (note_on s''))]
           \<and> status (note_on s'') = 0x90 \<and> note (note_on s'') = p2
           \<and> velocity (note_on s'') = v2
           \<and> \<not> note_on_event s'' \<and> \<not> note_off_event s'')"
  using assms
  by (simp add: handleNoteOn_def loop_def Let_def midi_note_on_def invoke_def)

theorem note_on_last_write_wins_witness:
  "\<not> note_on_event startup \<and> \<not> note_off_event startup
   \<and> note_on_event (handleNoteOn 1 10 5 (handleNoteOn 1 10 5 startup))
   \<and> note_to_send (handleNoteOn 1 10 5 (handleNoteOn 1 10 5 startup)) = 10
   \<and> note_velocity (handleNoteOn 1 10 5 (handleNoteOn 1 10 5 startup)) = 5
   \<and> calls (loop (obliging 7) [] 1000 1000
        (handleNoteOn 1 10 5 (handleNoteOn 1 10 5 startup)))
      = [Gatt_server_send_notification 0xFF 0 5 [0x87, 0xA8, 0x90, 10, 5]]"
proof -
  have a: "\<not> note_on_event startup" and b: "\<not> note_off_event startup"
    by (simp_all add: startup_def)
  from note_on_last_write_wins [OF a b, of 1 10 5 1 10 5 "obliging 7" 1000 1000]
  show ?thesis
    by (simp add: model_defs)
qed

text \<open>
  C10. In an iteration of \<open>loop\<close> in which, after \<open>read\<close>, both flags are set, the loop
  consumes the note-on first: it clears the note-on flag, encodes the pending pitch and
  velocity with the first timer reading and status \<open>0x90\<close> and sends that packet; then it
  clears the note-off flag, encodes the pending pitch and velocity with the second timer
  reading and status \<open>0x80\<close> and sends that packet. These two notifications, in this order,
  are the only calls of the iteration, both flags are clear at its end, and nothing else
  changes. The pending pitch and velocity are the pair that the two kinds share.
\<close>

theorem loop_on_before_off:
  assumes "note_on_event (midiA_read ms s)" and "note_off_event (midiA_read ms s)"
  shows "(let s0 = midiA_read ms s;
              p = \<lparr>header = ucast (0x80 OR drop_bit 7 (now_on AND 0x1FFF)),
                   timestamp = ucast (0x80 OR ((now_on AND 0x1FFF) AND 0x3F)),
                   status = 0x90, note = note_to_send s0, velocity = note_velocity s0\<rparr>;
              q = \<lparr>header = ucast (0x80 OR drop_bit 7 (now_off AND 0x1FFF)),
                   timestamp = ucast (0x80 OR ((now_off AND 0x1FFF) AND 0x3F)),
                   status = 0x80, note = note_to_send s0, velocity = note_velocity s0\<rparr>
          in loop stk ms now_on now_off s =
               s0\<lparr>note_on_event := False, note_off_event := False,
                  note_on := p, note_off := q,
                  calls := calls s @
                    [Gatt_server_send_notification (conn_handle s)
                       (midi_report_characteristic_handle s) 5
                       [header p, timestamp p, 0x90, note_to_send s0, note_velocity s0],
                     Gatt_server_send_notification (conn_handle s)
                       (midi_report_characteristic_handle s) 5
                       [header q, timestamp q, 0x80, note_to_send s0, note_velocity s0]]\<rparr>)"
  using assms
  by (simp add: loop_def Let_def midi_note_on_def midi_note_off_def invoke_def
        payload_def midiA_read_frame)

theorem loop_on_before_off_witness:
  "note_on_event (midiA_read [NoteOn 1 10 5, NoteOff 1 10 5] startup)
   \<and> note_off_event (midiA_read [NoteOn 1 10 5, NoteOff 1 10 5] startup)
   \<and> calls (loop (obliging 7) [NoteOn 1 10 5, NoteOff 1 10 5] 1000 1200 startup)
      = [Gatt_server_send_notification 0xFF 0 5 [0x87, 0xA8, 0x90, 10, 5],
         Gatt_server_send_notification 0xFF 0 5 [0x89, 0xB0, 0x80, 10, 5]]
   \<and> \<not> note_on_event (loop (obliging 7) [NoteOn 1 10 5, NoteOff 1 10 5] 1000 1200 startup)
   \<and> \<not> note_off_event (loop (obliging 7) [NoteOn 1 10 5, NoteOff 1 10 5] 1000 1200 startup)"
proof -
  have a: "note_on_event (midiA_read [NoteOn 1 10 5, NoteOff 1 10 5] startup)"
    and b: "note_off_event (midiA_read [NoteOn 1 10 5, NoteOff 1 10 5] startup)"
    by (simp_all add: model_defs)
  have c: "conn_handle startup = 0xFF" "midi_report_characteristic_handle startup = 0"
    "calls startup = []"
    "note_to_send (midiA_read [NoteOn 1 10 5, NoteOff 1 10 5] startup) = 10"
    "note_velocity (midiA_read [NoteOn 1 10 5, NoteOff 1 10 5] startup) = 5"
    by (simp_all add: model_defs)
  from loop_on_before_off [OF a b, where stk = "obliging 7" and now_on = 1000
    and now_off = 1200] a b
  show ?thesis
    by (simp add: Let_def c handleNoteOn_def handleNoteOff_def)
qed

subsection \<open>The advertising life cycle\<close>

text \<open>
  C4. Whatever events and loop iterations happen after start-up and whatever the stack
  answers, \<open>sl_bt_advertiser_create_set\<close> and \<open>sl_bt_advertiser_set_timing\<close> are each
  called at most once, also when the program halts on the way. When the handler of the
  first boot event returns, the calls that follow the eight calls of the GATT set-up are
  the creation of the set, its timing (160, 160, 0, 0), the generation of the advertising
  data and the start of advertising, and \<open>init\<close> is cleared. When the handlers of two boot
  events in a row return, each of the two set-up calls has been made exactly once.
\<close>

theorem create_set_at_most_once:
  "times_called is_create_set (final (run chk stk xs startup)) \<le> 1
   \<and> times_called is_set_timing (final (run chk stk xs startup)) \<le> 1
   \<and> (running (run chk stk [Event sl_bt_evt_system_boot_id] startup) \<longrightarrow>
       (let s' = final (run chk stk [Event sl_bt_evt_system_boot_id] startup)
        in drop 8 (calls s') =
             [Advertiser_create_set,
              Advertiser_set_timing (advertising_set_handle s') 160 160 0 0,
              Legacy_advertiser_generate_data (advertising_set_handle s')
                sl_bt_advertiser_general_discoverable,
              Legacy_advertiser_start (advertising_set_handle s')
                sl_bt_advertiser_connectable_scannable]
         \<and> \<not> init s'))
   \<and> (running (run chk stk [Event sl_bt_evt_system_boot_id, Event sl_bt_evt_system_boot_id]
         startup) \<longrightarrow>
       (let s'' = final (run chk stk [Event sl_bt_evt_system_boot_id,
                                  Event sl_bt_evt_system_boot_id] startup)
        in times_called is_create_set s'' = 1 \<and> times_called is_set_timing s'' = 1))"
proof (intro conjI impI)
  have "at_most_once (final (run chk stk xs startup))"
    by (rule holds_final [OF holds_run [OF set_once_startup]])
  then show "times_called is_create_set (final (run chk stk xs startup)) \<le> 1"
    and "times_called is_set_timing (final (run chk stk xs startup)) \<le> 1"
    by (simp_all add: at_most_once_def)
next
  let ?boot = "sl_bt_evt_system_boot_id"
  have i: "init startup" and e: "calls startup = []"
    by (simp_all add: startup_def)
  assume "running (run chk stk [Event ?boot] startup)"
  then have "run chk stk [Event ?boot] startup = Returns (final (run chk stk [Event ?boot] startup))"
    by (rule Returns_final)
  then have b: "sl_bt_on_event chk stk ?boot startup
                  = Returns (final (run chk stk [Event ?boot] startup))"
    by (auto elim: and_thenE)
  show "let s' = final (run chk stk [Event ?boot] startup)
        in drop 8 (calls s') =
             [Advertiser_create_set,
              Advertiser_set_timing (advertising_set_handle s') 160 160 0 0,
              Legacy_advertiser_generate_data (advertising_set_handle s')
                sl_bt_advertiser_general_discoverable,
              Legacy_advertiser_start (advertising_set_handle s')
                sl_bt_advertiser_connectable_scannable]
         \<and> \<not> init s'"
    unfolding Let_def using first_boot [OF i b] boot_clears_init [OF b]
    by (simp only: e list.size add_0 simp_thms)
next
  let ?boot = "sl_bt_evt_system_boot_id"
  have i: "init startup" and z: "times_called is_create_set startup = 0"
    "times_called is_set_timing startup = 0"
    by (simp_all add: startup_def times_called_def)
  assume "running (run chk stk [Event ?boot, Event ?boot] startup)"
  then have "run chk stk [Event ?boot, Event ?boot] startup
               = Returns (final (run chk stk [Event ?boot, Event ?boot] startup))"
    by (rule Returns_final)
  then obtain s1 where b1: "sl_bt_on_event chk stk ?boot startup = Returns s1"
    and b2: "sl_bt_on_event chk stk ?boot s1
               = Returns (final (run chk stk [Event ?boot, Event ?boot] startup))"
    by (auto elim!: and_thenE)
  show "let s'' = final (run chk stk [Event ?boot, Event ?boot] startup)
        in times_called is_create_set s'' = 1 \<and> times_called is_set_timing s'' = 1"
    unfolding Let_def
    using first_boot [OF i b1] later_boot [OF boot_clears_init [OF b1] b2]
    by (simp add: z)
qed

theorem create_set_at_most_once_witness:
  "running (run halt_on_failure (obliging 7) [Event sl_bt_evt_system_boot_id] startup)
   \<and> drop 8 (calls (final (run halt_on_failure (obliging 7) [Event sl_bt_evt_system_boot_id] startup))) =
       [Advertiser_create_set, Advertiser_set_timing 7 160 160 0 0,
        Legacy_advertiser_generate_data 7 sl_bt_advertiser_general_discoverable,
        Legacy_advertiser_start 7 sl_bt_advertiser_connectable_scannable]
   \<and> running (run halt_on_failure (obliging 7) [Event sl_bt_evt_system_boot_id,
        Event sl_bt_evt_system_boot_id] startup)
   \<and> times_called is_create_set (final (run halt_on_failure (obliging 7) [Event sl_bt_evt_system_boot_id,
        Event sl_bt_evt_system_boot_id] startup)) = 1"
proof -
  have a: "running (run halt_on_failure (obliging 7) [Event sl_bt_evt_system_boot_id] startup)"
    by (simp add: model_defs)
  have b: "running (run halt_on_failure (obliging 7) [Event sl_bt_evt_system_boot_id,
             Event sl_bt_evt_system_boot_id] startup)"
    by (simp add: model_defs)
  have c: "advertising_set_handle (final (run halt_on_failure (obliging 7)
             [Event sl_bt_evt_system_boot_id] startup)) = 7"
    by (simp add: model_defs)
  from create_set_at_most_once [of halt_on_failure "obliging 7" "[]"] a b c
  show ?thesis
    by (simp add: Let_def)
qed

text \<open>
  C3, as stated, is false: the handler of the connection-closed event does not touch
  \<open>conn_handle\<close>. After boot, a connection with handle 3 and its closing, the variable still
  holds 3, not \<open>0xFF\<close>, and a note received afterwards is sent to the closed connection.
\<close>

theorem closed_keeps_handle_counterexample:
  "conn_handle (final (run halt_on_failure (obliging 7)
      [Event sl_bt_evt_system_boot_id, Event (sl_bt_evt_connection_opened_id 3),
       Event sl_bt_evt_connection_closed_id] startup)) = 3
   \<and> last (calls (final (run halt_on_failure (obliging 7)
      [Event sl_bt_evt_system_boot_id, Event (sl_bt_evt_connection_opened_id 3),
       Event sl_bt_evt_connection_closed_id, Loop [NoteOn 1 42 127] 1000 1000] startup)))
      = Gatt_server_send_notification 3 7 5 [0x87, 0xA8, 0x90, 42, 127]"
  by (simp add: model_defs)

text \<open>
  C3, amended. In every state that the program reaches after a boot event, when the
  handler of the connection-closed event returns it has made exactly two calls, the
  generation of the advertising data and then the start of advertising, both on the
  advertising set created at boot, and it has changed no variable of the sketch:
  \<open>conn_handle\<close> keeps the handle of the connection that was closed.
\<close>

theorem closed_restarts_advertising:
  assumes "run chk stk xs startup = Returns s"
    and "Event sl_bt_evt_system_boot_id \<in> set xs"
    and "sl_bt_on_event chk stk sl_bt_evt_connection_closed_id s = Returns s'"
  shows "s' = s\<lparr>calls := calls s @
             [Legacy_advertiser_generate_data (advertising_set_handle s)
                sl_bt_advertiser_general_discoverable,
              Legacy_advertiser_start (advertising_set_handle s)
                sl_bt_advertiser_connectable_scannable]\<rparr>
         \<and> conn_handle s' = conn_handle s"
proof -
  from assms(1,2) have i: "\<not> init s"
    by (auto dest: run_after_boot)
  from assms(3) have "ble_start_advertising chk stk s = Returns s'"
    by simp
  from start_advertising_again [OF i this] have e: "s' = s\<lparr>calls := calls s @
             [Legacy_advertiser_generate_data (advertising_set_handle s)
                sl_bt_advertiser_general_discoverable,
              Legacy_advertiser_start (advertising_set_handle s)
                sl_bt_advertiser_connectable_scannable]\<rparr>" .
  from arg_cong [OF e, of conn_handle] e show ?thesis by simp
qed

theorem closed_restarts_advertising_witness:
  "running (run halt_on_failure (obliging 7)
      [Event sl_bt_evt_system_boot_id, Event (sl_bt_evt_connection_opened_id 3)] startup)
   \<and> Event sl_bt_evt_system_boot_id
        \<in> set [Event sl_bt_evt_system_boot_id, Event (sl_bt_evt_connection_opened_id 3)]
   \<and> running (sl_bt_on_event halt_on_failure (obliging 7) sl_bt_evt_connection_closed_id
        (final (run halt_on_failure (obliging 7)
          [Event sl_bt_evt_system_boot_id, Event (sl_bt_evt_connection_opened_id 3)] startup)))
   \<and> conn_handle (final (sl_bt_on_event halt_on_failure (obliging 7) sl_bt_evt_connection_closed_id
        (final (run halt_on_failure (obliging 7)
          [Event sl_bt_evt_system_boot_id, Event (sl_bt_evt_connection_opened_id 3)] startup))))
      = 3
   \<and> drop 12 (calls (final (sl_bt_on_event halt_on_failure (obliging 7) sl_bt_evt_connection_closed_id
        (final (run halt_on_failure (obliging 7)
          [Event sl_bt_evt_system_boot_id, Event (sl_bt_evt_connection_opened_id 3)] startup)))))
      = [Legacy_advertiser_generate_data 7 sl_bt_advertiser_general_discoverable,
         Legacy_advertiser_start 7 sl_bt_advertiser_connectable_scannable]"
proof -
  let ?xs = "[Event sl_bt_evt_system_boot_id, Event (sl_bt_evt_connection_opened_id 3)]"
  define S where "S = final (run halt_on_failure (obliging 7) ?xs startup)"
  define R where "R = sl_bt_on_event halt_on_failure (obliging 7) sl_bt_evt_connection_closed_id S"
  have a: "running (run halt_on_failure (obliging 7) ?xs startup)"
    by (simp add: model_defs)
  have b: "Event sl_bt_evt_system_boot_id \<in> set ?xs"
    by simp
  have c: "running R"
    unfolding R_def S_def by (simp add: model_defs)
  have d: "conn_handle S = 3" "advertising_set_handle S = 7" "length (calls S) = 12"
    unfolding S_def by (simp_all add: model_defs)
  have S: "run halt_on_failure (obliging 7) ?xs startup = Returns S"
    unfolding S_def by (rule Returns_final [OF a])
  have R: "sl_bt_on_event halt_on_failure (obliging 7) sl_bt_evt_connection_closed_id S = Returns (final R)"
    using Returns_final [OF c] unfolding R_def .
  from closed_restarts_advertising [OF S b R] d
  have "conn_handle (final R) = 3 \<and> drop 12 (calls (final R)) =
      [Legacy_advertiser_generate_data 7 sl_bt_advertiser_general_discoverable,
       Legacy_advertiser_start 7 sl_bt_advertiser_connectable_scannable]"
    by simp
  with a b c show ?thesis
    unfolding R_def S_def by blast
qed




text \<open>
  C9, as stated, is false: the MIDI characteristic is created as a fixed-length value of
  maximum length 1 with a one-byte initial value, not 5.
\<close>

theorem midi_characteristic_length_counterexample:
  "calls (final (run halt_on_failure (obliging 7) [Event sl_bt_evt_system_boot_id] startup)) ! 5
     = Gattdb_add_uuid128_characteristic 7 7
         [SL_BT_GATTDB_CHARACTERISTIC_READ, SL_BT_GATTDB_CHARACTERISTIC_NOTIFY,
          SL_BT_GATTDB_CHARACTERISTIC_WRITE]
         0 0 midi_report_characteristic_uuid sl_bt_gattdb_fixed_length_value 1 1 [0]"
  by (simp add: model_defs)

text \<open>
  C9, amended. Whenever the GATT set-up returns, its sixth call has created the MIDI
  characteristic with the properties read, notify and write, as a fixed-length value of
  maximum length 1 whose initial value is the single byte 0; all the same, every
  notification sent on that characteristic carries 5 bytes.
\<close>

theorem midi_characteristic_length:
  assumes "ble_initialize_gatt_db chk stk s = Returns s'"
  shows "calls s' ! (length (calls s) + 5)
           = Gattdb_add_uuid128_characteristic (gattdb_session_id s') (midi_service_handle s')
               [SL_BT_GATTDB_CHARACTERISTIC_READ, SL_BT_GATTDB_CHARACTERISTIC_NOTIFY,
                SL_BT_GATTDB_CHARACTERISTIC_WRITE]
               0 0 midi_report_characteristic_uuid sl_bt_gattdb_fixed_length_value 1 1 [0]
       \<and> last (calls (midi_note_on stk' now n v s'))
           = Gatt_server_send_notification (conn_handle s')
               (midi_report_characteristic_handle s') 5
               (payload (note_on (midi_note_on stk' now n v s')))
       \<and> length (payload (note_on (midi_note_on stk' now n v s'))) = 5
       \<and> last (calls (midi_note_off stk' now n v s'))
           = Gatt_server_send_notification (conn_handle s')
               (midi_report_characteristic_handle s') 5
               (payload (note_off (midi_note_off stk' now n v s')))
       \<and> length (payload (note_off (midi_note_off stk' now n v s'))) = 5"
proof -
  from gatt_trace [OF assms]
  have "calls s' ! (length (calls s) + 5) = add_midi_characteristic s'"
    by (simp add: nth_append)
  moreover have "last (calls (midi_note_on stk' now n v s'))
           = Gatt_server_send_notification (conn_handle s')
               (midi_report_characteristic_handle s') 5
               (payload (note_on (midi_note_on stk' now n v s')))"
    by (simp add: midi_note_on_def invoke_def Let_def)
  moreover have "last (calls (midi_note_off stk' now n v s'))
           = Gatt_server_send_notification (conn_handle s')
               (midi_report_characteristic_handle s') 5
               (payload (note_off (midi_note_off stk' now n v s')))"
    by (simp add: midi_note_off_def invoke_def Let_def)
  ultimately show ?thesis
    by (simp add: add_midi_characteristic_def payload_def)
qed

theorem midi_characteristic_length_witness:
  "running (ble_initialize_gatt_db halt_on_failure (obliging 7) startup)
   \<and> calls (final (ble_initialize_gatt_db halt_on_failure (obliging 7) startup)) ! 5
       = Gattdb_add_uuid128_characteristic 7 7
           [SL_BT_GATTDB_CHARACTERISTIC_READ, SL_BT_GATTDB_CHARACTERISTIC_NOTIFY,
            SL_BT_GATTDB_CHARACTERISTIC_WRITE]
           0 0 midi_report_characteristic_uuid sl_bt_gattdb_fixed_length_value 1 1 [0]"
proof -
  let ?r = "ble_initialize_gatt_db halt_on_failure (obliging 7) startup"
  have a: "running ?r"
    by (simp add: model_defs)
  have b: "gattdb_session_id (final ?r) = 7" "midi_service_handle (final ?r) = 7"
    "length (calls startup) = 0"
    by (simp_all add: model_defs)
  from midi_characteristic_length [OF Returns_final [OF a]] a show ?thesis
    by (simp only: b add_0 simp_thms)
qed

end
